theory Spec2Isabelle
  imports Main "HOL-Library.AList"
begin

section \<open>Errors, outcomes and contexts\<close>

text \<open>
  Go errors are values. \<open>New\<close> is \<open>errors.New\<close> (and \<open>fmt.Errorf\<close> without a
  \<open>%w\<close> verb), \<open>Wrapf w t\<close> is \<open>fmt.Errorf("%w: ...", w, ...)\<close> with \<open>t\<close> the formatted
  text after the colon, and \<open>Join\<close> is the value built by \<open>errors.Join\<close>. A nil error is
  \<open>None\<close> of \<open>error option\<close>. The package's sentinel errors (\<open>ErrService\<close>,
  \<open>ErrSessionDestroyed\<close>) are declared outside the files at hand, so the functions
  that use one take it as their first argument.
\<close>

datatype error = New string | Wrapf error string | Join "error list"

fun intercalate :: "string \<Rightarrow> string list \<Rightarrow> string" where
  "intercalate sep [] = []"
| "intercalate sep [x] = x"
| "intercalate sep (x # y # ys) = x @ sep @ intercalate sep (y # ys)"

text \<open>The message of an error, as its \<open>Error()\<close> method renders it.\<close>

fun Error :: "error \<Rightarrow> string" where
  "Error (New s) = s"
| "Error (Wrapf w t) = Error w @ '': '' @ t"
| "Error (Join es) = intercalate [CHR 0x0A] (map Error es)"

text \<open>\<open>errors.Join\<close> drops nil arguments and returns nil when nothing is left.\<close>

definition errors_Join :: "error option list \<Rightarrow> error option" where
  "errors_Join es =
     (let xs = List.map_filter (\<lambda>e. e) es in if xs = [] then None else Some (Join xs))"

text \<open>
  A call of the source either returns, panics (a nil function value is called, a closed
  channel is closed or sent on), or blocks for ever (a send on a nil channel).
\<close>

datatype 'a outcome = Returns 'a | Panics string | Blocks

fun bind :: "'a outcome \<Rightarrow> ('a \<Rightarrow> 'b outcome) \<Rightarrow> 'b outcome" where
  "bind (Returns x) f = f x"
| "bind (Panics p) f = Panics p"
| "bind Blocks f = Blocks"

text \<open>
  A \<open>context.Context\<close> is modelled by what \<open>Err()\<close> and \<open>context.Cause\<close> report:
  both nil while the context is live. Cancelling a context that is already done
  changes nothing; a nil cause stands for \<open>context.Canceled\<close>.
\<close>

record Context =
  ctx_err :: "error option"
  ctx_cause :: "error option"

definition Canceled :: error where
  "Canceled = New ''context canceled''"

definition DeadlineExceeded :: error where
  "DeadlineExceeded = New ''context deadline exceeded''"

definition Background :: Context where
  "Background = \<lparr>ctx_err = None, ctx_cause = None\<rparr>"

definition WithCancel :: "Context \<Rightarrow> Context" where
  "WithCancel parent = \<lparr>ctx_err = ctx_err parent, ctx_cause = ctx_cause parent\<rparr>"

definition cancel_ctx :: "error option \<Rightarrow> Context \<Rightarrow> Context" where
  "cancel_ctx cause c =
     (if ctx_err c \<noteq> None then c
      else \<lparr>ctx_err = Some Canceled,
            ctx_cause = Some (case cause of None \<Rightarrow> Canceled | Some e \<Rightarrow> e)\<rparr>)"

text \<open>A channel value is open or closed; closing a closed channel panics.\<close>

datatype chan = Open | Closed

fun close_chan :: "chan \<Rightarrow> chan outcome" where
  "close_chan Open = Returns Closed"
| "close_chan Closed = Panics ''close of closed channel''"

text \<open>A non-nil cancel function held in a field; calling it cancels the context it was made with.\<close>

datatype CancelFunc = CancelFunc

section \<open>The configuration store\<close>

text \<open>
  A \<open>Value\<close> keeps its type tag, the raw Go value and its string form. Only the type
  tags and raw values that the lifecycle core reads are listed.
\<close>

datatype Type = TypeUnknown | TypeString | TypeBool | TypeInt64 | TypeDuration

datatype raw = RString string | RBool bool | RInt64 int | RDuration int

record Value =
  vtype :: Type
  raw :: "raw option"
  str :: string

text \<open>\<open>parseBool\<close> of the parser: the accepted spellings, anything else is false.\<close>

definition parseBool :: "string \<Rightarrow> bool" where
  "parseBool s = (s \<in> set [''1'', ''t'', ''T'', ''true'', ''TRUE'', ''True''])"

definition Value_Bool :: "Value \<Rightarrow> bool" where
  "Value_Bool v =
     (case (vtype v, raw v) of
        (TypeBool, Some (RBool b)) \<Rightarrow> b
      | _ \<Rightarrow> parseBool (str v))"

text \<open>
  \<open>strconv.ParseInt(s, 10, 64)\<close>: an optional sign and decimal digits; a syntax error
  gives 0, a value out of range gives the nearest bound of int64. The parser's
  \<open>parseInt\<close> returns that number whether or not an error was reported.
\<close>

definition digit_val :: "char \<Rightarrow> nat option" where
  "digit_val c =
     (let n = of_char c :: nat in if 48 \<le> n \<and> n \<le> 57 then Some (n - 48) else None)"

fun parse_digits :: "nat \<Rightarrow> string \<Rightarrow> nat option" where
  "parse_digits acc [] = Some acc"
| "parse_digits acc (c # cs) =
     (case digit_val c of None \<Rightarrow> None | Some d \<Rightarrow> parse_digits (10 * acc + d) cs)"

definition ParseUint :: "string \<Rightarrow> nat option" where
  "ParseUint s = (if s = [] then None else parse_digits 0 s)"

definition ParseInt :: "string \<Rightarrow> int" where
  "ParseInt s =
     (case s of
        [] \<Rightarrow> 0
      | c # cs \<Rightarrow>
          (let neg = (c = CHR ''-'');
               ds = (if c = CHR ''+'' \<or> c = CHR ''-'' then cs else s)
           in case ParseUint ds of
                None \<Rightarrow> 0
              | Some n \<Rightarrow>
                  if neg then - int (min n (2 ^ 63)) else int (min n (2 ^ 63 - 1))))"

definition parseInt :: "string \<Rightarrow> int" where
  "parseInt s = (if s = ''true'' then 1 else if s = ''false'' then 0 else ParseInt s)"

definition Value_Int64 :: "Value \<Rightarrow> int" where
  "Value_Int64 v = parseInt (str v)"

text \<open>
  Modelled from the spec: \<open>Options.Get\<close> is not among the files at hand. The store
  exposes typed Get by string key; a key that was never set reads as the empty value,
  whose string form is empty.
\<close>

definition EmptyValue :: Value where
  "EmptyValue = \<lparr>vtype = TypeUnknown, raw = None, str = []\<rparr>"

definition opts_Get :: "(string \<rightharpoonup> Value) \<Rightarrow> string \<Rightarrow> Value" where
  "opts_Get m k = (case m k of None \<Rightarrow> EmptyValue | Some v \<Rightarrow> v)"

section \<open>Session\<close>

text \<open>
  The fields of \<open>Session\<close> that carry state. \<open>ready\<close> and \<open>sig\<close> are contexts (nil before
  \<open>start\<close>), \<open>readyFunc\<close> and \<open>sigRelease\<close> their cancel functions, \<open>done_ch\<close> is the
  field \<open>done\<close> and \<open>evch\<close> the event channel (nil when absent).
\<close>

record Session =
  opts :: "string \<rightharpoonup> Value"
  ready :: "Context option"
  readyFunc :: "CancelFunc option"
  sig :: "Context option"
  sigRelease :: "CancelFunc option"
  err :: "error option"
  done_ch :: "chan option"
  evch :: "chan option"

definition Session_Err :: "Session \<Rightarrow> error option" where
  "Session_Err s = err s"

definition Session_Get :: "Session \<Rightarrow> string \<Rightarrow> Value" where
  "Session_Get s k = opts_Get (opts s) k"

text \<open>\<open>close(c)\<close> guarded by \<open>c != nil\<close>, as \<open>Destroy\<close> does for both channels.\<close>

fun close_if_present :: "chan option \<Rightarrow> chan option outcome" where
  "close_if_present None = Returns None"
| "close_if_present (Some c) = bind (close_chan c) (\<lambda>c'. Returns (Some c'))"

definition Destroy :: "error \<Rightarrow> error option \<Rightarrow> Session \<Rightarrow> Session outcome" where
  "Destroy ErrSessionDestroyed e s =
     (if Session_Err s \<noteq> None then Returns s
      else
        let s1 = s\<lparr>err := e\<rparr>;
            s2 = (case readyFunc s1 of
                    None \<Rightarrow> s1
                  | Some f \<Rightarrow> s1\<lparr>ready := map_option (cancel_ctx None) (ready s1)\<rparr>);
            s3 = (if err s2 = None then s2\<lparr>err := Some ErrSessionDestroyed\<rparr> else s2);
            s4 = (case sigRelease s3 of
                    None \<Rightarrow> s3
                  | Some f \<Rightarrow> s3\<lparr>sig := map_option (cancel_ctx None) (sig s3),
                                sigRelease := None\<rparr>)
        in bind (close_if_present (evch s4)) (\<lambda>ev.
           bind (close_if_present (done_ch s4)) (\<lambda>dn.
           Returns (s4\<lparr>evch := ev, done_ch := dn\<rparr>))))"

text \<open>\<open>Done\<close> allocates the channel on first use and returns the session's channel.\<close>

definition Session_Done :: "Session \<Rightarrow> Session" where
  "Session_Done s = (if done_ch s = None then s\<lparr>done_ch := Some Open\<rparr> else s)"

text \<open>
  The \<open>*int\<close> case of \<open>Value\<close>: the key with which the context package probes a parent
  context. A signal context that reports an error destroys the session with it.
\<close>

definition Value_probe :: "error \<Rightarrow> Session \<Rightarrow> Session outcome" where
  "Value_probe ErrSessionDestroyed s =
     (case sig s of
        None \<Rightarrow> Returns s
      | Some c \<Rightarrow>
          (if ctx_err c \<noteq> None then Destroy ErrSessionDestroyed (ctx_err c) s
           else Returns s))"

text \<open>
  Deriving a cancellable context from the session (\<open>context.WithCancel\<close>,
  \<open>context.WithTimeout\<close>, \<open>signal.NotifyContext\<close> with the session as parent) asks the
  parent for its \<open>Done\<close> channel and, unless that channel is closed already, probes the
  parent with the \<open>*int\<close> key.
\<close>

definition derive_context :: "error \<Rightarrow> Session \<Rightarrow> Session outcome" where
  "derive_context ErrSessionDestroyed s =
     (let s1 = Session_Done s
      in if done_ch s1 = Some Closed then Returns s1
         else Value_probe ErrSessionDestroyed s1)"

text \<open>
  \<open>start\<close> makes the readiness context and, from the session itself, the signal context;
  the fields \<open>sig\<close> and \<open>sigRelease\<close> are assigned when the derivation has returned.
\<close>

definition Session_start :: "error \<Rightarrow> Session \<Rightarrow> Session outcome" where
  "Session_start ErrSessionDestroyed s =
     (let s1 = s\<lparr>ready := Some (WithCancel Background), readyFunc := Some CancelFunc\<rparr>
      in bind (derive_context ErrSessionDestroyed s1) (\<lambda>s2.
         Returns (s2\<lparr>sig := Some \<lparr>ctx_err = None, ctx_cause = None\<rparr>,
                      sigRelease := Some CancelFunc\<rparr>)))"

definition setReady :: "Session \<Rightarrow> Session outcome" where
  "setReady s =
     (case readyFunc s of
        None \<Rightarrow> Panics ''nil func''
      | Some f \<Rightarrow> Returns (s\<lparr>ready := map_option (cancel_ctx None) (ready s)\<rparr>))"

text \<open>The calls of one sequence of \<open>Destroy\<close>, each on the session the one before left.\<close>

fun Destroy_calls :: "error \<Rightarrow> error option list \<Rightarrow> Session \<Rightarrow> Session outcome" where
  "Destroy_calls D [] s = Returns s"
| "Destroy_calls D (e # es) s = bind (Destroy D e s) (Destroy_calls D es)"

text \<open>
  What is still pending of a session's teardown: a readiness gate or a signal context
  that is not done, an event channel or a done channel that is present and open.
\<close>

definition teardown_pending :: "Session \<Rightarrow> bool" where
  "teardown_pending s =
     ((case ready s of None \<Rightarrow> False | Some c \<Rightarrow> ctx_err c = None) \<or>
      (case sig s of None \<Rightarrow> False | Some c \<Rightarrow> ctx_err c = None) \<or>
      evch s = Some Open \<or> done_ch s = Some Open)"

section \<open>Events, the effect trace and the clock\<close>

text \<open>
  An \<open>Event\<close> has a scope, a key, a payload and an optional error. The payload is the
  ordered mapping that \<open>Store\<close> fills: a stored key keeps its place, a new key goes last.
\<close>

record Address =
  url :: string
  Host :: string
  Instance :: string

definition Address_String :: "Address \<Rightarrow> string" where
  "Address_String a = url a"

type_synonym time = nat

datatype pval = PString string | PAddr Address | PErr error | PBool bool | PTime time

record Event =
  scope :: string
  key :: string
  payload :: "(string \<times> pval) list"
  ev_err :: "error option"

definition Store :: "string \<Rightarrow> pval \<Rightarrow> (string \<times> pval) list \<Rightarrow> (string \<times> pval) list" where
  "Store k v m = (if k \<in> fst ` set m then AList.update k v m else m @ [(k, v)])"

definition NewEvent :: "string \<Rightarrow> string \<Rightarrow> (string \<times> pval) list \<Rightarrow> error option \<Rightarrow> Event" where
  "NewEvent sc k p e = \<lparr>scope = sc, key = k, payload = p, ev_err = e\<rparr>"

text \<open>
  Everything the code does to the world outside its own records is appended to a trace,
  in the order in which it happens: a log record, an event handed to the event channel,
  a hook or a listener that is called (a listener by the key and the position under
  which it was registered), a first run of a cron job started in the background, the
  scheduler started or stopped and drained, the container's context cancelled.
\<close>

datatype level = LDebug | LSystemDebug | LWarn | LError

datatype effect =
    Logged level string
  | Sent Event
  | Called string
  | Invoked string nat
  | Spawned nat
  | CronStarted
  | CronDrained
  | CtxCancelled "error option"

text \<open>
  \<open>time.Now()\<close> reads a clock: \<open>clock w n\<close> is the value of the \<open>n\<close>-th reading, and
  \<open>reads w\<close> counts the readings made so far.
\<close>

record world =
  clock :: "nat \<Rightarrow> time"
  reads :: nat
  trace :: "effect list"

definition emit :: "effect \<Rightarrow> world \<Rightarrow> world" where
  "emit e w = w\<lparr>trace := trace w @ [e]\<rparr>"

definition Log :: "level \<Rightarrow> string \<Rightarrow> world \<Rightarrow> world" where
  "Log l m w = emit (Logged l m) w"

definition time_Now :: "world \<Rightarrow> time \<times> world" where
  "time_Now w = (clock w (reads w), w\<lparr>reads := Suc (reads w)\<rparr>)"

text \<open>
  \<open>Dispatch\<close> drops a nil event with a warning. Otherwise it sends on the event channel:
  the send blocks for ever on a nil channel and panics on a closed one; on an open
  channel the engine's loop receives the event.
\<close>

definition Dispatch :: "Event option \<Rightarrow> Session \<Rightarrow> world \<Rightarrow> world outcome" where
  "Dispatch ev s w =
     (case ev of
        None \<Rightarrow> Returns (Log LWarn ''received <nil> event'' w)
      | Some e \<Rightarrow>
          (case evch s of
             None \<Rightarrow> Blocks
           | Some Closed \<Rightarrow> Panics ''send on closed channel''
           | Some Open \<Rightarrow> Returns (emit (Sent e) w)))"

section \<open>ServiceInfo\<close>

record ServiceInfo =
  info_name :: string
  info_addr :: Address
  running :: bool
  errs :: "(time \<rightharpoonup> error) option"
  startedAt :: time
  stoppedAt :: time

definition Running :: "ServiceInfo \<Rightarrow> bool" where
  "Running i = running i"

definition Addr :: "ServiceInfo \<Rightarrow> Address" where
  "Addr i = info_addr i"

definition Errs :: "ServiceInfo \<Rightarrow> (time \<rightharpoonup> error) option" where
  "Errs i = errs i"

definition started :: "ServiceInfo \<Rightarrow> world \<Rightarrow> ServiceInfo \<times> world" where
  "started i w = (let (t, w') = time_Now w in (i\<lparr>running := True, startedAt := t\<rparr>, w'))"

definition stopped :: "ServiceInfo \<Rightarrow> world \<Rightarrow> ServiceInfo \<times> world" where
  "stopped i w = (let (t, w') = time_Now w in (i\<lparr>running := False, stoppedAt := t\<rparr>, w'))"

definition addErr :: "error option \<Rightarrow> ServiceInfo \<Rightarrow> world \<Rightarrow> ServiceInfo \<times> world" where
  "addErr e i w =
     (case e of
        None \<Rightarrow> (i, w)
      | Some x \<Rightarrow>
          (let m = (case errs i of None \<Rightarrow> Map.empty | Some m \<Rightarrow> m);
               (t, w') = time_Now w
           in (i\<lparr>errs := Some (m(t \<mapsto> x))\<rparr>, w')))"

section \<open>Cron\<close>

text \<open>
  Hooks and listeners are user code; each is modelled by the error it returns for the
  session (and event) it is given.
\<close>

type_synonym Action = "Session \<Rightarrow> error option"
type_synonym ActionWithEvent = "Session \<Rightarrow> Event \<Rightarrow> error option"
type_synonym ActionTick = "Session \<Rightarrow> time \<Rightarrow> int \<Rightarrow> error option"
type_synonym ActionTock = "Session \<Rightarrow> int \<Rightarrow> int \<Rightarrow> error option"

text \<open>
  The scheduler library behind \<open>Cron\<close>: its entries with their ids, the last id given
  out, and whether its timer loop runs. \<open>AddFunc\<close> returns id 0 and an error for an
  expression that its parser rejects (the parser is the argument \<open>parse\<close>), and the next
  id otherwise; \<open>Entry\<close> finds an entry by id and returns the zero entry, whose job is
  nil, when there is none.
\<close>

record cronlib =
  entries :: "(nat \<times> Action) list"
  nextID :: nat
  lib_running :: bool

definition cron_New :: cronlib where
  "cron_New = \<lparr>entries = [], nextID = 0, lib_running = False\<rparr>"

definition AddFunc :: "(string \<Rightarrow> error option) \<Rightarrow> string \<Rightarrow> Action \<Rightarrow> cronlib \<Rightarrow> nat \<times> error option \<times> cronlib" where
  "AddFunc parse expr job l =
     (case parse expr of
        Some e \<Rightarrow> (0, Some e, l)
      | None \<Rightarrow>
          (let n = Suc (nextID l)
           in (n, None, l\<lparr>entries := entries l @ [(n, job)], nextID := n\<rparr>)))"

definition Entry :: "nat \<Rightarrow> cronlib \<Rightarrow> Action option" where
  "Entry n l = map_of (entries l) n"

record Cron =
  lib :: cronlib
  jobIDs :: "nat list"

definition newCron :: Cron where
  "newCron = \<lparr>lib = cron_New, jobIDs = []\<rparr>"

definition Cron_Job :: "(string \<Rightarrow> error option) \<Rightarrow> string \<Rightarrow> Action \<Rightarrow> Cron \<Rightarrow> world \<Rightarrow> Cron \<times> world" where
  "Cron_Job parse expr cb cs w =
     (let (n, e, l) = AddFunc parse expr cb (lib cs);
          cs' = cs\<lparr>lib := l, jobIDs := jobIDs cs @ [n]\<rparr>
      in if e \<noteq> None then (cs', Log LError ''failed to add job'' w) else (cs', w))"

text \<open>The loop of \<open>Start\<close> over \<open>jobIDs\<close>: every id is logged, a job is run only if its entry exists.\<close>

fun run_once :: "cronlib \<Rightarrow> nat list \<Rightarrow> world \<Rightarrow> world" where
  "run_once l [] w = w"
| "run_once l (n # ns) w =
     (let w1 = Log LSystemDebug ''executing cron first time'' w;
          w2 = (if Entry n l \<noteq> None then emit (Spawned n) w1 else w1)
      in run_once l ns w2)"

definition Cron_Start :: "Session \<Rightarrow> Cron \<Rightarrow> world \<Rightarrow> Cron \<times> world" where
  "Cron_Start s cs w =
     (let w1 = (if Value_Bool (Session_Get s ''app.cron.on.service.start'')
                then run_once (lib cs) (jobIDs cs) w else w)
      in (cs\<lparr>lib := (lib cs)\<lparr>lib_running := True\<rparr>\<rparr>, emit CronStarted w1))"

text \<open>
  \<open>Stop\<close> asks the scheduler to stop and waits on the context that the scheduler closes
  once the jobs it started have returned.
\<close>

definition Cron_Stop :: "Cron \<Rightarrow> world \<Rightarrow> Cron \<times> world" where
  "Cron_Stop cs w = (cs\<lparr>lib := (lib cs)\<lparr>lib_running := False\<rparr>\<rparr>, emit CronDrained w)"

section \<open>Service and serviceContainer\<close>

text \<open>
  A \<open>Service\<close> is a record of optional hooks. Its listener table is a Go map (nil until
  the first listener is added). A cron setup callback is modelled by the \<open>Job\<close> calls it
  makes on the scheduler it is given.
\<close>

record Service =
  name :: string
  initializeAction :: "Action option"
  startAction :: "Action option"
  stopAction :: "Action option"
  tickAction :: "ActionTick option"
  tockAction :: "ActionTock option"
  listeners :: "(string \<rightharpoonup> ActionWithEvent list) option"
  cronsetup :: "(string \<times> Action) list option"

definition NewService :: "string \<Rightarrow> Service" where
  "NewService n =
     \<lparr>name = n, initializeAction = None, startAction = None, stopAction = None,
      tickAction = None, tockAction = None, listeners = None, cronsetup = None\<rparr>"

definition add_listener :: "string \<Rightarrow> ActionWithEvent \<Rightarrow> Service \<Rightarrow> Service" where
  "add_listener lid cb s =
     (let m = (case listeners s of None \<Rightarrow> Map.empty | Some m \<Rightarrow> m);
          old = (case m lid of None \<Rightarrow> [] | Some ls \<Rightarrow> ls)
      in s\<lparr>listeners := Some (m(lid \<mapsto> old @ [cb]))\<rparr>)"

definition OnEvent :: "string \<Rightarrow> string \<Rightarrow> ActionWithEvent \<Rightarrow> Service \<Rightarrow> Service" where
  "OnEvent sc k cb s = add_listener (sc @ ''.'' @ k) cb s"

definition OnAnyEvent :: "ActionWithEvent \<Rightarrow> Service \<Rightarrow> Service" where
  "OnAnyEvent cb s = add_listener ''any'' cb s"

record serviceContainer =
  info :: ServiceInfo
  svc :: Service
  cancel :: "CancelFunc option"
  ctx :: "Context option"
  cron :: "Cron option"

definition container :: "Service \<Rightarrow> Address \<Rightarrow> serviceContainer" where
  "container s a =
     \<lparr>info = \<lparr>info_name = name s, info_addr = a, running = False, errs = None,
               startedAt = 0, stoppedAt = 0\<rparr>,
      svc = s, cancel = None, ctx = None, cron = None\<rparr>"

fun setup_jobs :: "(string \<Rightarrow> error option) \<Rightarrow> (string \<times> Action) list \<Rightarrow> Cron \<Rightarrow> world \<Rightarrow> Cron \<times> world" where
  "setup_jobs parse [] cs w = (cs, w)"
| "setup_jobs parse ((expr, cb) # js) cs w =
     (let (cs', w') = Cron_Job parse expr cb cs w in setup_jobs parse js cs' w')"

definition initialize :: "(string \<Rightarrow> error option) \<Rightarrow> Session \<Rightarrow> serviceContainer \<Rightarrow> world \<Rightarrow> error option \<times> serviceContainer \<times> world" where
  "initialize parse s c w =
     (let (e, w1) = (case initializeAction (svc c) of
                       None \<Rightarrow> (None, w)
                     | Some a \<Rightarrow> (a s, emit (Called ''initialize'') w))
      in if e \<noteq> None then
           (let (i, w2) = addErr e (info c) w1 in (e, c\<lparr>info := i\<rparr>, w2))
         else
           (let (c1, w2) = (case cronsetup (svc c) of
                              None \<Rightarrow> (c, w1)
                            | Some js \<Rightarrow>
                                (let (cs, w') = setup_jobs parse js newCron w1
                                 in (c\<lparr>cron := Some cs\<rparr>, w')))
            in (None, c1, Log LDebug ''service initialied'' w2)))"

text \<open>The payload of the \<open>service.started\<close> and \<open>service.stopped\<close> events.\<close>

definition status_payload :: "ServiceInfo \<Rightarrow> error option \<Rightarrow> string \<Rightarrow> time \<Rightarrow> (string \<times> pval) list" where
  "status_payload i e atkey at =
     (let p1 = Store ''name'' (PString (info_name i)) [];
          p2 = Store ''addr'' (PAddr (Addr i)) p1;
          p3 = (case e of None \<Rightarrow> p2 | Some x \<Rightarrow> Store ''err'' (PErr x) p2);
          p4 = Store ''running'' (PBool (Running i)) p3
      in Store atkey (PTime at) p4)"

definition start :: "Context \<Rightarrow> Session \<Rightarrow> serviceContainer \<Rightarrow> world \<Rightarrow> (error option \<times> serviceContainer \<times> world) outcome" where
  "start ectx s c w =
     (let (e, w1) = (case startAction (svc c) of
                       None \<Rightarrow> (None, w)
                     | Some a \<Rightarrow> (a s, emit (Called ''start'') w));
          (c1, w2) = (case cron c of
                        None \<Rightarrow> (c, w1)
                      | Some cs \<Rightarrow>
                          (let (cs', w') = Cron_Start s cs (Log LSystemDebug ''starting cron jobs'' w1)
                           in (c\<lparr>cron := Some cs'\<rparr>, w')));
          c2 = c1\<lparr>ctx := Some (WithCancel ectx), cancel := Some CancelFunc\<rparr>;
          (i, w3) = (if e = None then started (info c2) w2 else addErr e (info c2) w2);
          c3 = c2\<lparr>info := i\<rparr>;
          ev = NewEvent ''services'' ''service.started''
                 (status_payload i e ''started.at'' (startedAt i)) None
      in bind (Dispatch (Some ev) s w3) (\<lambda>w4.
         Returns (None, c3, Log LDebug ''service started'' w4)))"

definition stop :: "Session \<Rightarrow> error option \<Rightarrow> serviceContainer \<Rightarrow> world \<Rightarrow> (error option \<times> serviceContainer \<times> world) outcome" where
  "stop s e c w =
     (let w1 = (if e \<noteq> None then Log LError ''service error'' w else w);
          (c1, w2) = (case cron c of
                        None \<Rightarrow> (c, w1)
                      | Some cs \<Rightarrow>
                          (let (cs', w') = Cron_Stop cs
                                 (Log LSystemDebug ''stopping cron scheduler, waiting jobs to finish'' w1)
                           in (c\<lparr>cron := Some cs'\<rparr>, w')))
      in case cancel c1 of
           None \<Rightarrow> Panics ''nil func''
         | Some f \<Rightarrow>
             (let c2 = c1\<lparr>ctx := map_option (cancel_ctx e) (ctx c1)\<rparr>;
                  w3 = emit (CtxCancelled e) w2;
                  (r, w4) = (case stopAction (svc c2) of
                               None \<Rightarrow> (None, w3)
                             | Some a \<Rightarrow> (a s, emit (Called ''stop'') w3));
                  r' = (if e \<noteq> None then errors_Join [r, e] else r);
                  (i, w5) = stopped (info c2) w4;
                  c3 = c2\<lparr>info := i\<rparr>;
                  ev = NewEvent ''services'' ''service.stopped''
                         (status_payload i r' ''stopped.at'' (stoppedAt i)) None
              in bind (Dispatch (Some ev) s w5) (\<lambda>w6.
                 Returns (r', c3, Log LDebug ''service stopped'' w6))))"

definition tick :: "Session \<Rightarrow> time \<Rightarrow> int \<Rightarrow> serviceContainer \<Rightarrow> error option" where
  "tick s ts delta c = (case tickAction (svc c) of None \<Rightarrow> None | Some a \<Rightarrow> a s ts delta)"

definition tock :: "Session \<Rightarrow> int \<Rightarrow> int \<Rightarrow> serviceContainer \<Rightarrow> error option" where
  "tock s delta tps c = (case tockAction (svc c) of None \<Rightarrow> None | Some a \<Rightarrow> a s delta tps)"

text \<open>
  \<open>handleEvent\<close>: the inner loop runs over the listeners registered under one key, the
  outer loop over the keys of the table. Go ranges over a map in an order of its own
  choosing, so the order of the keys is an argument: \<open>ks\<close> lists the keys of the table,
  each once.
\<close>

fun call_listeners :: "string \<Rightarrow> string \<Rightarrow> Session \<Rightarrow> Event \<Rightarrow> nat \<Rightarrow> ActionWithEvent list \<Rightarrow> ServiceInfo \<times> world \<Rightarrow> ServiceInfo \<times> world" where
  "call_listeners sk lid s ev n [] iw = iw"
| "call_listeners sk lid s ev n (l # ls) (i, w) =
     call_listeners sk lid s ev (Suc n) ls
       (if sk = ''any'' \<or> sk = lid then
          (let w1 = emit (Invoked sk n) w
           in case l s ev of
                None \<Rightarrow> (i, w1)
              | Some e \<Rightarrow>
                  (let (i', w2) = addErr (Some e) i w1
                   in (i', Log LError ''event handler error'' w2)))
        else (i, w))"

fun range_listeners :: "(string \<rightharpoonup> ActionWithEvent list) \<Rightarrow> string \<Rightarrow> Session \<Rightarrow> Event \<Rightarrow> string list \<Rightarrow> ServiceInfo \<times> world \<Rightarrow> ServiceInfo \<times> world" where
  "range_listeners m lid s ev [] iw = iw"
| "range_listeners m lid s ev (sk # ks) iw =
     range_listeners m lid s ev ks
       (case m sk of
          None \<Rightarrow> iw
        | Some ls \<Rightarrow> call_listeners sk lid s ev 0 ls iw)"

definition handleEvent :: "string list \<Rightarrow> Session \<Rightarrow> Event \<Rightarrow> serviceContainer \<Rightarrow> world \<Rightarrow> serviceContainer \<times> world" where
  "handleEvent ks s ev c w =
     (case listeners (svc c) of
        None \<Rightarrow> (c, w)
      | Some m \<Rightarrow>
          (let lid = scope ev @ ''.'' @ key ev;
               (i, w') = range_listeners m lid s ev ks (info c, w)
           in (c\<lparr>info := i\<rparr>, w')))"

section \<open>ServiceLoader\<close>

record ServiceLoader =
  loading :: bool
  loaderCh :: chan
  loader_errs :: "error list"
  hostaddr :: "Address option"
  svcs :: "Address list"

definition loader_addErr :: "error option \<Rightarrow> ServiceLoader \<Rightarrow> ServiceLoader" where
  "loader_addErr e sl =
     (case e of None \<Rightarrow> sl | Some x \<Rightarrow> sl\<lparr>loader_errs := loader_errs sl @ [x]\<rparr>)"

text \<open>
  The constructor. \<open>parsed\<close> is what \<open>address.Parse\<close> returned for the configured
  \<open>app.host.addr\<close>, and \<open>resolve\<close> is \<open>ResolveService\<close>, both of the address package.
  With no host address the receiver of \<open>ResolveService\<close> is a nil pointer.
\<close>

fun resolve_all :: "(Address \<Rightarrow> string \<Rightarrow> error + Address) \<Rightarrow> string list \<Rightarrow> ServiceLoader \<Rightarrow> ServiceLoader outcome" where
  "resolve_all resolve [] sl = Returns sl"
| "resolve_all resolve (n # ns) sl =
     (case hostaddr sl of
        None \<Rightarrow> Panics ''nil pointer dereference''
      | Some h \<Rightarrow>
          resolve_all resolve ns
            (case resolve h n of
               Inl e \<Rightarrow> loader_addErr (Some e) sl
             | Inr a \<Rightarrow> sl\<lparr>svcs := svcs sl @ [a]\<rparr>))"

definition NewServiceLoader :: "error \<Rightarrow> error + Address \<Rightarrow> (Address \<Rightarrow> string \<Rightarrow> error + Address) \<Rightarrow> string list \<Rightarrow> ServiceLoader outcome" where
  "NewServiceLoader ErrService parsed resolve names =
     (let sl = \<lparr>loading = False, loaderCh = Open, loader_errs = [], hostaddr = None, svcs = []\<rparr>;
          sl1 = (case parsed of
                   Inl e \<Rightarrow>
                     loader_addErr (Some (Wrapf ErrService ''loader requires valid app.host.addr''))
                       (loader_addErr (Some e) sl)
                 | Inr a \<Rightarrow> sl\<lparr>hostaddr := Some a\<rparr>)
      in resolve_all resolve names sl1)"

definition loader_cancel :: "error option \<Rightarrow> ServiceLoader \<Rightarrow> world \<Rightarrow> (ServiceLoader \<times> world) outcome" where
  "loader_cancel reason sl w =
     (let w1 = Log LWarn ''sevice loader canceled'' w;
          sl1 = (loader_addErr reason sl)\<lparr>loading := False\<rparr>
      in bind (close_chan (loaderCh sl1)) (\<lambda>ch. Returns (sl1\<lparr>loaderCh := ch\<rparr>, w1)))"

definition loader_done :: "ServiceLoader \<Rightarrow> world \<Rightarrow> (ServiceLoader \<times> world) outcome" where
  "loader_done sl w =
     (let sl1 = sl\<lparr>loading := False\<rparr>;
          w1 = Log LDebug ''service loader completed'' w
      in bind (close_chan (loaderCh sl1)) (\<lambda>ch. Returns (sl1\<lparr>loaderCh := ch\<rparr>, w1)))"

definition loader_Err :: "error \<Rightarrow> ServiceLoader \<Rightarrow> error option" where
  "loader_Err ErrService sl =
     (if loading sl then
        Some (Wrapf ErrService
          ''service loader error checked before loader finished! did you wait for .Loaded?'')
      else errors_Join (map Some (loader_errs sl)))"

text \<open>Decimal digits of a number, for the \<open>%d\<close> verb.\<close>

fun dec :: "nat \<Rightarrow> string" where
  "dec n = (if n < 10 then [char_of (48 + n)] else dec (n div 10) @ [char_of (48 + n mod 10)])"

declare dec.simps [simp del]

fun store_services :: "nat \<Rightarrow> string list \<Rightarrow> (string \<times> pval) list \<Rightarrow> (string \<times> pval) list" where
  "store_services n [] p = p"
| "store_services n (u # us) p = store_services (Suc n) us (Store (''service.'' @ dec n) (PString u) p)"

definition StartServicesEvent :: "string list \<Rightarrow> Event" where
  "StartServicesEvent us = NewEvent ''services'' ''start.services'' (store_services 0 us []) None"

definition StopServicesEvent :: "string list \<Rightarrow> Event" where
  "StopServicesEvent us = NewEvent ''services'' ''stop.services'' (store_services 0 us []) None"

text \<open>
  The loop of \<open>Load\<close> over the targets. The queue is a Go map from the address string to
  the service's status, kept here with its keys in the order of their insertion;
  \<open>registry\<close> is the session's lookup of a \<open>ServiceInfo\<close> by address, which belongs to the
  engine. The loop ends early with the error to cancel with.
\<close>

definition queue_put :: "string \<Rightarrow> ServiceInfo \<Rightarrow> (string \<times> ServiceInfo) list \<Rightarrow> (string \<times> ServiceInfo) list" where
  "queue_put k i q = (if k \<in> fst ` set q then AList.update k i q else q @ [(k, i)])"

fun require_loop :: "error \<Rightarrow> (string \<Rightarrow> error + ServiceInfo) \<Rightarrow> Address list \<Rightarrow> (string \<times> ServiceInfo) list \<Rightarrow> string list \<Rightarrow> world \<Rightarrow> (error \<times> world) + ((string \<times> ServiceInfo) list \<times> string list \<times> world)" where
  "require_loop ErrService registry [] q req w = Inr (q, req, w)"
| "require_loop ErrService registry (a # as) q req w =
     (let k = Address_String a
      in case registry k of
           Inl e \<Rightarrow> Inl (e, w)
         | Inr i \<Rightarrow>
             if k \<in> fst ` set q then
               Inl (Wrapf ErrService (''duplicated service request '' @ k), w)
             else if Running i then
               require_loop ErrService registry as q req
                 (Log LSystemDebug ''requested service is already running'' w)
             else
               require_loop ErrService registry as (queue_put k i q) (req @ [k])
                 (Log LSystemDebug ''requesting service'' w))"

text \<open>
  What \<open>Load\<close> leaves behind when it returns: nothing, or the background waiter with its
  timeout (in nanoseconds) and its queue.
\<close>

datatype waiting = NotArmed | Armed int "(string \<times> ServiceInfo) list"

definition load_timeout :: "Session \<Rightarrow> world \<Rightarrow> int \<times> world" where
  "load_timeout s w =
     (let t = Value_Int64 (Session_Get s ''app.service.loader.timeout'')
      in if t \<le> 0 then
           (30 * 1000000000, Log LSystemDebug ''service loader using default timeout'' w)
         else (t, w))"

definition Load :: "error \<Rightarrow> error \<Rightarrow> (string \<Rightarrow> error + ServiceInfo) \<Rightarrow> Session \<Rightarrow> ServiceLoader \<Rightarrow> world \<Rightarrow> (ServiceLoader \<times> Session \<times> world \<times> waiting) outcome" where
  "Load ErrService ErrSessionDestroyed registry s sl w =
     (if loading sl then Returns (sl, s, w, NotArmed)
      else
        let sl1 = sl\<lparr>loading := True\<rparr>
        in if loader_errs sl1 \<noteq> [] then
             bind (loader_cancel (Some (Wrapf ErrService ''loader initializeton failed'')) sl1 w)
               (\<lambda>(sl2, w2). Returns (sl2, s, w2, NotArmed))
           else
             let (timeout, w1) = load_timeout s w
             in case hostaddr sl1 of
                  None \<Rightarrow> Panics ''nil pointer dereference''
                | Some h \<Rightarrow>
                    (case require_loop ErrService registry (svcs sl1) [] []
                            (Log LSystemDebug ''loading services...'' w1) of
                       Inl (e, w2) \<Rightarrow>
                         bind (loader_cancel (Some e) sl1 w2)
                           (\<lambda>(sl2, w3). Returns (sl2, s, w3, NotArmed))
                     | Inr (q, req, w2) \<Rightarrow>
                         bind (Dispatch (Some (StartServicesEvent req)) s w2) (\<lambda>w3.
                         bind (derive_context ErrSessionDestroyed s) (\<lambda>s'.
                         Returns (sl1, s', w3, Armed timeout q)))))"

text \<open>
  The background waiter. Each turn of its loop takes one branch of the \<open>select\<close>: the
  context is done (with the error the context reports), or the poll ticker fired.
  Either branch ranges over the queue, whose values point to statuses that the engine
  updates meanwhile: the turn comes with the statuses as they are then, in the order in
  which the range visits them, each with the order in which a range visits the keys of
  its error map. The list of turns is what the waiter has seen so far; when it ends
  with the loop still running, the waiter is still waiting (\<open>None\<close>).
\<close>

type_synonym obs = "ServiceInfo \<times> time list"

datatype turn = CtxDone error "obs list" | Tick "obs list"

fun late_errs :: "obs list \<Rightarrow> ServiceLoader \<Rightarrow> ServiceLoader" where
  "late_errs [] sl = sl"
| "late_errs ((i, ts) # os) sl =
     late_errs os
       (if \<not> Running i then
          loader_addErr (Some (New (''service did not load on time '' @ Address_String (Addr i)))) sl
        else sl)"

fun add_all :: "error list \<Rightarrow> ServiceLoader \<Rightarrow> ServiceLoader" where
  "add_all [] sl = sl"
| "add_all (e # es) sl = add_all es (loader_addErr (Some e) sl)"

fun poll :: "error \<Rightarrow> obs list \<Rightarrow> nat \<Rightarrow> ServiceLoader \<Rightarrow> (ServiceLoader \<times> error) + nat" where
  "poll ErrService [] loaded sl = Inr loaded"
| "poll ErrService ((i, ts) # os) loaded sl =
     (case Errs i of
        Some m \<Rightarrow>
          Inl (add_all (List.map_filter m ts) sl,
               Wrapf ErrService
                 (''service loader failed to load required services '' @ Address_String (Addr i)))
      | None \<Rightarrow> poll ErrService os (if Running i then Suc loaded else loaded) sl)"

fun waiter :: "error \<Rightarrow> nat \<Rightarrow> turn list \<Rightarrow> ServiceLoader \<Rightarrow> world \<Rightarrow> (ServiceLoader \<times> world) outcome option" where
  "waiter ErrService qlen [] sl w = None"
| "waiter ErrService qlen (CtxDone e os # ts) sl w =
     Some (loader_cancel (Some e) (late_errs os sl) (Log LWarn ''loader context done'' w))"
| "waiter ErrService qlen (Tick os # ts) sl w =
     (case poll ErrService os 0 sl of
        Inl (sl', reason) \<Rightarrow> Some (loader_cancel (Some reason) sl' w)
      | Inr loaded \<Rightarrow>
          if loaded = qlen then Some (loader_done sl w)
          else waiter ErrService qlen ts sl w)"

text \<open>Whether a text occurs in another, for "the error names the address".\<close>

fun starts_with :: "string \<Rightarrow> string \<Rightarrow> bool" where
  "starts_with [] s = True"
| "starts_with (c # cs) [] = False"
| "starts_with (c # cs) (d # ds) = (c = d \<and> starts_with cs ds)"

fun contains :: "string \<Rightarrow> string \<Rightarrow> bool" where
  "contains sub [] = (sub = [])"
| "contains sub (c # cs) = (starts_with sub (c # cs) \<or> contains sub cs)"

section \<open>Concrete inputs\<close>

text \<open>
  A session that has not been started, with an open event channel; a world whose clock
  counts its readings; a service with a failing start hook and a failing stop hook in a
  container that was never started; a session with the cron flag set; a cron with one
  rejected and one accepted registration.
\<close>

definition S0 :: Session where
  "S0 = \<lparr>opts = Map.empty, ready = None, readyFunc = None, sig = None, sigRelease = None,
         err = None, done_ch = None, evch = Some Open\<rparr>"

definition W0 :: world where
  "W0 = \<lparr>clock = (\<lambda>n. n), reads = 0, trace = []\<rparr>"

definition A0 :: Address where
  "A0 = \<lparr>url = ''happy://host/app/service/a'', Host = ''host'', Instance = ''app''\<rparr>"

definition boom :: Action where
  "boom = (\<lambda>s. Some (New ''boom''))"

definition C0 :: serviceContainer where
  "C0 = container ((NewService ''a'')\<lparr>startAction := Some boom, stopAction := Some boom\<rparr>) A0"

definition S1 :: Session where
  "S1 = S0\<lparr>opts := [''app.cron.on.service.start'' \<mapsto> \<lparr>vtype = TypeBool, raw = Some (RBool True), str = ''true''\<rparr>]\<rparr>"

definition CS1 :: Cron where
  "CS1 = \<lparr>lib = \<lparr>entries = [(1, boom)], nextID = 1, lib_running = False\<rparr>, jobIDs = [0, 1]\<rparr>"

section \<open>Basic facts\<close>

lemma trace_emit [simp]: "trace (emit e w) = trace w @ [e]"
  and reads_emit [simp]: "reads (emit e w) = reads w"
  and clock_emit [simp]: "clock (emit e w) = clock w"
  by (simp_all add: emit_def)

lemma trace_Log [simp]: "trace (Log l m w) = trace w @ [Logged l m]"
  and reads_Log [simp]: "reads (Log l m w) = reads w"
  and clock_Log [simp]: "clock (Log l m w) = clock w"
  by (simp_all add: Log_def)

lemma run_once_world:
  "reads (run_once l ns w) = reads w \<and> clock (run_once l ns w) = clock w \<and>
   trace (run_once l ns w) = trace w @
     concat (map (\<lambda>n. Logged LSystemDebug ''executing cron first time'' #
                        (if Entry n l \<noteq> None then [Spawned n] else [])) ns)"
  by (induction ns arbitrary: w) (simp_all add: Let_def)

lemma Cron_Start_world:
  "reads (snd (Cron_Start s cs w)) = reads w \<and> clock (snd (Cron_Start s cs w)) = clock w"
  by (simp add: Cron_Start_def Let_def run_once_world)

lemma Dispatch_open:
  "evch s = Some Open \<Longrightarrow> Dispatch (Some ev) s w = Returns (emit (Sent ev) w)"
  by (simp add: Dispatch_def)

lemma Dispatch_Returns:
  "Dispatch (Some ev) s w = Returns w' \<Longrightarrow> w' = emit (Sent ev) w"
  by (auto simp: Dispatch_def split: option.splits chan.splits)

lemma Cron_Start_trace: "\<exists>T. trace (snd (Cron_Start s cs w)) = trace w @ T"
  by (simp add: Cron_Start_def Let_def run_once_world)

lemma started_simps:
  "started i w = (i\<lparr>running := True, startedAt := clock w (reads w)\<rparr>, w\<lparr>reads := Suc (reads w)\<rparr>)"
  by (simp add: started_def time_Now_def)

lemma stopped_simps:
  "stopped i w = (i\<lparr>running := False, stoppedAt := clock w (reads w)\<rparr>, w\<lparr>reads := Suc (reads w)\<rparr>)"
  by (simp add: stopped_def time_Now_def)

lemma addErr_Some:
  "addErr (Some e) i w =
     (i\<lparr>errs := Some ((case errs i of None \<Rightarrow> Map.empty | Some m \<Rightarrow> m)(clock w (reads w) \<mapsto> e))\<rparr>,
      w\<lparr>reads := Suc (reads w)\<rparr>)"
  by (simp add: addErr_def time_Now_def)

lemma close_if_present_cases:
  "close_if_present c = (case c of None \<Rightarrow> Returns None | Some Open \<Rightarrow> Returns (Some Closed)
      | Some Closed \<Rightarrow> Panics ''close of closed channel'')"
  by (simp split: option.split chan.split)

lemma Destroy_Returns_iff:
  "Destroy D e s = Returns s1 \<longleftrightarrow>
     (if Session_Err s \<noteq> None then s1 = s
      else evch s \<noteq> Some Closed \<and> done_ch s \<noteq> Some Closed \<and>
           s1 = s\<lparr>err := Some (case e of None \<Rightarrow> D | Some x \<Rightarrow> x),
                  ready := (case readyFunc s of None \<Rightarrow> ready s
                            | Some f \<Rightarrow> map_option (cancel_ctx None) (ready s)),
                  sig := (case sigRelease s of None \<Rightarrow> sig s
                          | Some f \<Rightarrow> map_option (cancel_ctx None) (sig s)),
                  sigRelease := None,
                  evch := map_option (\<lambda>_. Closed) (evch s),
                  done_ch := map_option (\<lambda>_. Closed) (done_ch s)\<rparr>)"
  unfolding Destroy_def Session_Err_def Let_def close_if_present_cases
  by (auto split: option.split chan.split)

lemma Destroy_sets_err:
  "Destroy D e s = Returns s1 \<Longrightarrow> Session_Err s1 \<noteq> None"
  by (auto simp: Destroy_Returns_iff Session_Err_def split: if_splits)

lemma Destroy_noop: "Session_Err s \<noteq> None \<Longrightarrow> Destroy D e s = Returns s"
  by (simp add: Destroy_def)

lemma Destroy_calls_noop: "Session_Err s \<noteq> None \<Longrightarrow> Destroy_calls D es s = Returns s"
  by (induction es) (simp_all add: Destroy_noop)

lemma Destroy_returns:
  "evch s \<noteq> Some Closed \<Longrightarrow> done_ch s \<noteq> Some Closed \<Longrightarrow> \<exists>s'. Destroy D e s = Returns s'"
  by (cases "Session_Err s = None") (simp_all add: Destroy_Returns_iff)

lemma cancel_ctx_done: "\<exists>y. ctx_err (cancel_ctx e c) = Some y"
  by (auto simp add: cancel_ctx_def)

section \<open>Session: termination\<close>

text \<open>
  Claim C2. \<open>Destroy\<close> is idempotent: on a session whose \<open>Err()\<close> is non-nil it changes
  nothing, and whenever a first \<open>Destroy\<close> has returned, \<open>Err()\<close> is non-nil (the first
  error, or the generic one for a nil error, if the session was alive), a second
  \<open>Destroy\<close> with any other error returns the same session, and so does any longer
  sequence of calls.
\<close>

theorem Destroy_idempotent:
  "(Session_Err s \<noteq> None \<longrightarrow> Destroy D e s = Returns s) \<and>
   (Destroy D e1 s = Returns s1 \<longrightarrow>
      Session_Err s1 \<noteq> None \<and>
      (Session_Err s = None \<longrightarrow> Session_Err s1 = Some (case e1 of None \<Rightarrow> D | Some x \<Rightarrow> x)) \<and>
      Destroy D e2 s1 = Returns s1 \<and>
      Destroy_calls D [e1, e2] s = Returns s1 \<and>
      Destroy_calls D (e1 # es) s = Returns s1)"
proof (intro conjI impI)
  show "Destroy D e s = Returns s" if "Session_Err s \<noteq> None" using that by (rule Destroy_noop)
next
  assume d: "Destroy D e1 s = Returns s1"
  then show ne: "Session_Err s1 \<noteq> None" by (rule Destroy_sets_err)
  then show "Destroy D e2 s1 = Returns s1" by (rule Destroy_noop)
  from ne show "Destroy_calls D (e1 # es) s = Returns s1"
    by (simp add: d Destroy_calls_noop)
  from ne show "Destroy_calls D [e1, e2] s = Returns s1"
    by (simp add: d Destroy_noop)
next
  assume d: "Destroy D e1 s = Returns s1" and n: "Session_Err s = None"
  then show "Session_Err s1 = Some (case e1 of None \<Rightarrow> D | Some x \<Rightarrow> x)"
    by (simp add: Destroy_Returns_iff Session_Err_def)
qed

theorem Destroy_idempotent_witness:
  "Destroy (New ''session destroyed'') (Some (New ''first'')) S0 = Returns (S0\<lparr>err := Some (New ''first''), evch := Some Closed\<rparr>) \<and>
   Destroy_calls (New ''session destroyed'') [Some (New ''first''), Some (New ''second'')] S0 = Returns (S0\<lparr>err := Some (New ''first''), evch := Some Closed\<rparr>)"
proof -
  have d: "Destroy (New ''session destroyed'') (Some (New ''first'')) S0 = Returns (S0\<lparr>err := Some (New ''first''), evch := Some Closed\<rparr>)"
    by (simp add: Destroy_def S0_def Session_Err_def)
  with Destroy_idempotent [of S0 "New ''session destroyed''" None "Some (New ''first'')" "S0\<lparr>err := Some (New ''first''), evch := Some Closed\<rparr>" "Some (New ''second'')" "[]"]
  show ?thesis by blast
qed

text \<open>
  Once \<open>Destroy\<close> has returned on a session that was alive, and whose contexts came with
  their cancel functions, nothing of the teardown is pending.
\<close>

lemma Destroy_teardown:
  assumes "Session_Err s = None" "Destroy D e s = Returns s1"
    and "ready s \<noteq> None \<longrightarrow> readyFunc s \<noteq> None"
    and "sig s \<noteq> None \<longrightarrow> sigRelease s \<noteq> None"
  shows "\<not> teardown_pending s1"
  using assms 
  by (auto simp: Destroy_Returns_iff teardown_pending_def cancel_ctx_done split: option.splits)

text \<open>
  Claim C6. A session with a non-nil error has no teardown pending: this fails. On a
  session that was destroyed before its \<open>Done\<close> channel existed, \<open>Done\<close> allocates an
  open channel; \<open>Err()\<close> is non-nil, the channel is present and open, and a later
  \<open>Destroy\<close> does not close it.
\<close>

theorem Done_after_Destroy:
  "Destroy (New ''session destroyed'') (Some (New ''boom'')) S0 = Returns (S0\<lparr>err := Some (New ''boom''), evch := Some Closed\<rparr>) \<and>
   Session_Err (Session_Done (S0\<lparr>err := Some (New ''boom''), evch := Some Closed\<rparr>)) = Some (New ''boom'') \<and>
   done_ch (Session_Done (S0\<lparr>err := Some (New ''boom''), evch := Some Closed\<rparr>)) = Some Open \<and>
   teardown_pending (Session_Done (S0\<lparr>err := Some (New ''boom''), evch := Some Closed\<rparr>)) \<and>
   Destroy (New ''session destroyed'') None (Session_Done (S0\<lparr>err := Some (New ''boom''), evch := Some Closed\<rparr>)) = Returns (Session_Done (S0\<lparr>err := Some (New ''boom''), evch := Some Closed\<rparr>))"
  by (simp add: Destroy_def S0_def Session_Err_def Session_Done_def teardown_pending_def)

section \<open>serviceContainer: start and stop\<close>

lemma start_result:
  "start ectx s c w = Returns (r, c', w') \<Longrightarrow> r = None \<and> cancel c' = Some CancelFunc"
  unfolding start_def Let_def
  by (auto split: prod.splits outcome.splits elim!: bind.elims)

lemma start_open:
  assumes op: "evch s = Some Open"
  shows "\<exists>c' w' T. start ectx s c w = Returns (None, c', w') \<and>
     trace w' = trace w @ (case startAction (svc c) of None \<Rightarrow> [] | Some a \<Rightarrow> [Called ''start'']) @ T \<and>
     ctx c' = Some (WithCancel ectx) \<and>
     info c' = (case (case startAction (svc c) of None \<Rightarrow> None | Some a \<Rightarrow> a s) of
                  None \<Rightarrow> (info c)\<lparr>running := True, startedAt := clock w (reads w)\<rparr>
                | Some e \<Rightarrow> (info c)\<lparr>errs := Some ((case errs (info c) of None \<Rightarrow> Map.empty | Some m \<Rightarrow> m)
                                                      (clock w (reads w) \<mapsto> e))\<rparr>)"
proof -
  define e where "e = (case startAction (svc c) of None \<Rightarrow> None | Some a \<Rightarrow> a s)"
  define w1 where "w1 = (case startAction (svc c) of None \<Rightarrow> w | Some a \<Rightarrow> emit (Called ''start'') w)"
  have ew: "(case startAction (svc c) of None \<Rightarrow> (None, w) | Some a \<Rightarrow> (a s, emit (Called ''start'') w)) = (e, w1)"
    by (simp add: e_def w1_def split: option.split)
  have w1: "reads w1 = reads w" "clock w1 = clock w"
    "trace w1 = trace w @ (case startAction (svc c) of None \<Rightarrow> [] | Some a \<Rightarrow> [Called ''start''])"
    by (simp_all add: w1_def split: option.split)
  show ?thesis
  proof (cases "cron c")
    case None
    show ?thesis
      unfolding start_def ew e_def [symmetric]
      by (cases e) (simp_all add: None started_simps addErr_Some Dispatch_open op w1)
  next
    case (Some cs)
    obtain cs' wc where cs: "Cron_Start s cs (Log LSystemDebug ''starting cron jobs'' w1) = (cs', wc)"
      by (cases "Cron_Start s cs (Log LSystemDebug ''starting cron jobs'' w1)")
    from Cron_Start_world [of s cs "Log LSystemDebug ''starting cron jobs'' w1"]
    have wc: "reads wc = reads w" "clock wc = clock w" by (simp_all add: cs w1)
    from Cron_Start_trace [of s cs "Log LSystemDebug ''starting cron jobs'' w1"]
    obtain T where t: "trace wc = trace w1 @ [Logged LSystemDebug ''starting cron jobs''] @ T"
      by (auto simp: cs)
    show ?thesis
      unfolding start_def ew e_def [symmetric]
      by (cases e) (simp_all add: Some cs started_simps addErr_Some Dispatch_open op wc t w1)
  qed
qed

text \<open>
  Claim C1. For a container whose service has a start hook, \<open>start\<close> never returns an
  error; on a session whose event channel takes the \<open>service.started\<close> event it runs the
  hook and returns nil, having marked the status running with the time read from the
  clock when the hook succeeded, and having recorded the hook's error under that time
  (the status not running) when the hook failed.
\<close>

theorem start_swallows_hook_error:
  assumes hook: "startAction (svc c) = Some hook"
  shows "(\<forall>e c' w'. start ectx s c w \<noteq> Returns (Some e, c', w')) \<and>
   (evch s = Some Open \<longrightarrow>
      (\<exists>c' w'. start ectx s c w = Returns (None, c', w') \<and>
         Called ''start'' \<in> set (trace w') \<and>
         (hook s = None \<longrightarrow>
            running (info c') \<and> startedAt (info c') = clock w (reads w) \<and>
            errs (info c') = errs (info c)) \<and>
         (\<forall>e. hook s = Some e \<longrightarrow>
            (\<exists>m. errs (info c') = Some m \<and> m (clock w (reads w)) = Some e) \<and>
            running (info c') = running (info c) \<and>
            startedAt (info c') = startedAt (info c))))"
proof (intro conjI allI impI)
  fix e c' w'
  show "start ectx s c w \<noteq> Returns (Some e, c', w')"
    using start_result [of ectx s c w "Some e" c' w'] by auto
next
  assume op: "evch s = Some Open"
  from start_open [OF op, of ectx c w] obtain c' w' T where
    st: "start ectx s c w = Returns (None, c', w')"
    and tr: "trace w' = trace w @ [Called ''start''] @ T"
    and inf: "info c' = (case hook s of
                  None \<Rightarrow> (info c)\<lparr>running := True, startedAt := clock w (reads w)\<rparr>
                | Some e \<Rightarrow> (info c)\<lparr>errs := Some ((case errs (info c) of None \<Rightarrow> Map.empty | Some m \<Rightarrow> m)
                                                      (clock w (reads w) \<mapsto> e))\<rparr>)"
    by (auto simp: hook)
  show "\<exists>c' w'. start ectx s c w = Returns (None, c', w') \<and>
         Called ''start'' \<in> set (trace w') \<and>
         (hook s = None \<longrightarrow>
            running (info c') \<and> startedAt (info c') = clock w (reads w) \<and>
            errs (info c') = errs (info c)) \<and>
         (\<forall>e. hook s = Some e \<longrightarrow>
            (\<exists>m. errs (info c') = Some m \<and> m (clock w (reads w)) = Some e) \<and>
            running (info c') = running (info c) \<and>
            startedAt (info c') = startedAt (info c))"
    using st tr inf by (intro exI [of _ c'] exI [of _ w']) (cases "hook s"; simp)
qed

theorem start_swallows_hook_error_witness:
  "startAction (svc C0) = Some boom \<and> evch S0 = Some Open \<and>
   (\<exists>c' w'. start Background S0 C0 W0 = Returns (None, c', w') \<and>
      (\<exists>m. errs (info c') = Some m \<and> m 0 = Some (New ''boom'')) \<and> \<not> running (info c'))"
proof -
  have h: "startAction (svc C0) = Some boom" by (simp add: C0_def container_def NewService_def)
  have o: "evch S0 = Some Open" by (simp add: S0_def)
  from start_swallows_hook_error [OF h, of Background S0 W0] h o show ?thesis
    by (auto simp: boom_def W0_def C0_def container_def)
qed

lemma stop_nil_cancel: "cancel c = None \<Longrightarrow> stop s e c w = Panics ''nil func''"
  unfolding stop_def Let_def
  by (cases "cron c") (simp_all add: Cron_Stop_def)

lemma stop_started:
  assumes cf: "cancel c = Some f" and op: "evch s = Some Open"
  shows "\<exists>c' w' ev. stop s e c w =
       Returns (if e \<noteq> None
                then errors_Join [case stopAction (svc c) of None \<Rightarrow> None | Some a \<Rightarrow> a s, e]
                else (case stopAction (svc c) of None \<Rightarrow> None | Some a \<Rightarrow> a s), c', w') \<and>
     info c' = (info c)\<lparr>running := False, stoppedAt := clock w (reads w)\<rparr> \<and>
     ctx c' = map_option (cancel_ctx e) (ctx c) \<and>
     cancel c' = cancel c \<and> svc c' = svc c \<and>
     scope ev = ''services'' \<and> key ev = ''service.stopped'' \<and>
     trace w' = trace w @
       (if e \<noteq> None then [Logged LError ''service error''] else []) @
       (case cron c of None \<Rightarrow> []
        | Some cs \<Rightarrow> [Logged LSystemDebug ''stopping cron scheduler, waiting jobs to finish'', CronDrained]) @
       [CtxCancelled e] @
       (case stopAction (svc c) of None \<Rightarrow> [] | Some a \<Rightarrow> [Called ''stop'']) @
       [Sent ev, Logged LDebug ''service stopped'']"
  unfolding stop_def Let_def
  by (cases "cron c"; cases "stopAction (svc c)")
     (simp_all add: cf op Cron_Stop_def stopped_simps Dispatch_open NewEvent_def)


lemma errors_Join_cause:
  "errors_Join [r, Some cause] = Some (Join ((case r of None \<Rightarrow> [] | Some x \<Rightarrow> [x]) @ [cause]))"
  by (cases r) (simp_all add: errors_Join_def List.map_filter_simps)

text \<open>
  Claim C7, as stated for every container, fails on a container that was never started:
  its cancel function is nil and \<open>stop\<close> panics when it calls it.
\<close>

theorem stop_never_started_panics:
  "stop S0 (Some (New ''cause'')) C0 W0 = Panics ''nil func''"
  by (simp add: stop_def C0_def container_def NewService_def)

text \<open>
  Claim C7, amended. For a container on which \<open>start\<close> has run (its cancel function is
  set), on a session whose event channel takes the \<open>service.stopped\<close> event, \<open>stop\<close> with
  a non-nil cause logs the cause, stops the cron (if present) and waits until it has
  drained, then cancels the container's context with the cause, runs the stop hook if
  set, marks the status stopped with the time read from the clock, sends the event and
  returns the join of the hook's error (if any) and the cause.
\<close>

theorem stop_joins_cause:
  assumes "cancel c = Some f" and "evch s = Some Open"
  shows "\<exists>c' w' ev. stop s (Some cause) c w =
       Returns (Some (Join ((case (case stopAction (svc c) of None \<Rightarrow> None | Some a \<Rightarrow> a s) of
                               None \<Rightarrow> [] | Some x \<Rightarrow> [x]) @ [cause])), c', w') \<and>
     \<not> running (info c') \<and> stoppedAt (info c') = clock w (reads w) \<and>
     ctx c' = map_option (cancel_ctx (Some cause)) (ctx c) \<and>
     scope ev = ''services'' \<and> key ev = ''service.stopped'' \<and>
     trace w' = trace w @
       [Logged LError ''service error''] @
       (case cron c of None \<Rightarrow> []
        | Some cs \<Rightarrow> [Logged LSystemDebug ''stopping cron scheduler, waiting jobs to finish'', CronDrained]) @
       [CtxCancelled (Some cause)] @
       (case stopAction (svc c) of None \<Rightarrow> [] | Some a \<Rightarrow> [Called ''stop'']) @
       [Sent ev, Logged LDebug ''service stopped'']"
proof -
  from stop_started [OF assms, of "Some cause" w] obtain c' w' ev where
    "stop s (Some cause) c w =
       Returns (errors_Join [case stopAction (svc c) of None \<Rightarrow> None | Some a \<Rightarrow> a s, Some cause], c', w')"
    "info c' = (info c)\<lparr>running := False, stoppedAt := clock w (reads w)\<rparr>"
    "ctx c' = map_option (cancel_ctx (Some cause)) (ctx c)"
    "scope ev = ''services''" "key ev = ''service.stopped''"
    "trace w' = trace w @
       [Logged LError ''service error''] @
       (case cron c of None \<Rightarrow> []
        | Some cs \<Rightarrow> [Logged LSystemDebug ''stopping cron scheduler, waiting jobs to finish'', CronDrained]) @
       [CtxCancelled (Some cause)] @
       (case stopAction (svc c) of None \<Rightarrow> [] | Some a \<Rightarrow> [Called ''stop'']) @
       [Sent ev, Logged LDebug ''service stopped'']"
    by auto
  then show ?thesis
    unfolding errors_Join_cause by (intro exI [of _ c'] exI [of _ w'] exI [of _ ev]) simp
qed

theorem stop_joins_cause_witness:
  "cancel (C0\<lparr>cancel := Some CancelFunc\<rparr>) = Some CancelFunc \<and> evch S0 = Some Open \<and>
   (\<exists>c' w'. stop S0 (Some (New ''cause'')) (C0\<lparr>cancel := Some CancelFunc\<rparr>) W0 =
       Returns (Some (Join [New ''boom'', New ''cause'']), c', w') \<and>
     \<not> running (info c') \<and> stoppedAt (info c') = 0)"
proof -
  have h: "cancel (C0\<lparr>cancel := Some CancelFunc\<rparr>) = Some CancelFunc" by simp
  have o: "evch S0 = Some Open" by (simp add: S0_def)
  from stop_joins_cause [OF h o, of "New ''cause''" W0] h o show ?thesis
    by (auto simp: boom_def W0_def C0_def container_def NewService_def)
qed

lemma stop_not_nil_panic:
  "cancel c = Some f \<Longrightarrow> stop s e c w \<noteq> Panics ''nil func''"
  unfolding stop_def Let_def
  by (cases "cron c"; cases "stopAction (svc c)"; cases "evch s"; cases "the (evch s)")
     (simp_all add: Cron_Stop_def stopped_simps Dispatch_def NewEvent_def)

lemma stop_keeps_cancel:
  "stop s e c w = Returns (r, c', w') \<Longrightarrow> cancel c' = cancel c"
  unfolding stop_def Let_def
  by (cases "cron c"; cases "stopAction (svc c)"; cases "cancel c"; cases "evch s"; cases "the (evch s)")
     (auto simp add: Cron_Stop_def stopped_simps Dispatch_def NewEvent_def)

lemma initialize_keeps_cancel:
  "cancel (fst (snd (initialize parse s c w))) = cancel c"
  unfolding initialize_def Let_def
  by (auto split: option.splits prod.splits)

lemma handleEvent_keeps_cancel:
  "cancel (fst (handleEvent ks s ev c w)) = cancel c"
  unfolding handleEvent_def Let_def
  by (auto split: option.splits prod.splits)

text \<open>
  Claim C9. \<open>stop\<close> calls the stored cancel function without a check. A container has it
  nil when it is made, and \<open>initialize\<close>, \<open>handleEvent\<close> and \<open>stop\<close> leave the field as it
  is; \<open>start\<close>, whenever it returns, has set it, and \<open>stop\<close> then never fails on a nil
  function; with the field nil \<open>stop\<close> panics on the call.
\<close>

theorem stop_cancel_assigned_by_start:
  "(start ectx s c w = Returns (r, c', w') \<longrightarrow>
      cancel c' = Some CancelFunc \<and> stop s2 e c' w2 \<noteq> Panics ''nil func'') \<and>
   (cancel c = None \<longrightarrow> stop s e c w = Panics ''nil func'') \<and>
   cancel (container sv a) = None \<and>
   cancel (fst (snd (initialize parse s c w))) = cancel c \<and>
   cancel (fst (handleEvent ks s ev c w)) = cancel c \<and>
   (stop s e c w = Returns (r, c', w') \<longrightarrow> cancel c' = cancel c)"
  using start_result [of ectx s c w r c' w'] stop_not_nil_panic [of c' CancelFunc s2 e w2]
    stop_nil_cancel [of c s e w] stop_keeps_cancel [of s e c w r c' w']
  by (auto simp: initialize_keeps_cancel handleEvent_keeps_cancel container_def)

theorem stop_cancel_assigned_by_start_witness:
  "\<exists>c' w'. start Background S0 C0 W0 = Returns (None, c', w') \<and> cancel c' = Some CancelFunc \<and>
     stop S0 None c' w' \<noteq> Panics ''nil func'' \<and>
     cancel C0 = None \<and> stop S0 None C0 W0 = Panics ''nil func'' \<and>
     (\<exists>r c'' w''. stop S0 None c' w' = Returns (r, c'', w'') \<and> cancel c'' = Some CancelFunc)"
proof -
  have o: "evch S0 = Some Open" by (simp add: S0_def)
  from start_open [OF o, of Background C0 W0]
  obtain c' w' where st: "start Background S0 C0 W0 = Returns (None, c', w')" by blast
  have n: "cancel C0 = None" by (simp add: C0_def container_def)
  from stop_cancel_assigned_by_start [of Background S0 C0 W0 None c' w' S0 None w']
  have a: "cancel c' = Some CancelFunc" "stop S0 None c' w' \<noteq> Panics ''nil func''"
    "stop S0 None C0 W0 = Panics ''nil func''"
    using st n by simp_all
  from stop_started [OF a(1) o, of None w']
  obtain r c'' w'' where sp: "stop S0 None c' w' = Returns (r, c'', w'')" by blast
  from stop_cancel_assigned_by_start [of Background S0 c' w' r c'' w'' S0 None w'] sp a(1)
  have "cancel c'' = Some CancelFunc" by simp
  with st a n sp show ?thesis by blast
qed

section \<open>Cron\<close>

lemma Entry_zero:
  "\<forall>p\<in>set (entries l). 0 < fst p \<Longrightarrow> Entry 0 l = None"
  by (force simp: Entry_def map_of_eq_None_iff)

text \<open>
  Claim C10. Every call of \<open>Job\<close> makes \<open>jobIDs\<close> one longer; when the scheduler rejects
  the expression the id appended is 0, the scheduler is unchanged and the failure is
  logged. With the flag \<open>app.cron.on.service.start\<close> set, \<open>Start\<close> goes through every id
  of \<open>jobIDs\<close>, those of rejected registrations too, logs each, and runs the job only
  where the scheduler has an entry for the id; the scheduler's ids are positive, so id 0
  has none.
\<close>

theorem Cron_Job_appends_id:
  "length (jobIDs (fst (Cron_Job parse expr cb cs w))) = Suc (length (jobIDs cs)) \<and>
   (\<forall>e. parse expr = Some e \<longrightarrow>
      Cron_Job parse expr cb cs w = (cs\<lparr>jobIDs := jobIDs cs @ [0]\<rparr>, Log LError ''failed to add job'' w)) \<and>
   (Value_Bool (Session_Get s ''app.cron.on.service.start'') \<longrightarrow>
      trace (snd (Cron_Start s cs w)) = trace w @
        concat (map (\<lambda>n. Logged LSystemDebug ''executing cron first time'' #
                           (if Entry n (lib cs) \<noteq> None then [Spawned n] else [])) (jobIDs cs)) @
        [CronStarted]) \<and>
   ((\<forall>p\<in>set (entries (lib cs)). 0 < fst p) \<longrightarrow>
      Entry 0 (lib cs) = None \<and>
      (\<forall>p\<in>set (entries (lib (fst (Cron_Job parse expr cb cs w)))). 0 < fst p))"
proof (intro conjI allI impI)
  show "length (jobIDs (fst (Cron_Job parse expr cb cs w))) = Suc (length (jobIDs cs))"
    by (simp add: Cron_Job_def AddFunc_def Let_def split: option.split)
  show "Cron_Job parse expr cb cs w = (cs\<lparr>jobIDs := jobIDs cs @ [0]\<rparr>, Log LError ''failed to add job'' w)"
    if "parse expr = Some e" for e
    using that by (simp add: Cron_Job_def AddFunc_def)
  show "trace (snd (Cron_Start s cs w)) = trace w @
        concat (map (\<lambda>n. Logged LSystemDebug ''executing cron first time'' #
                           (if Entry n (lib cs) \<noteq> None then [Spawned n] else [])) (jobIDs cs)) @
        [CronStarted]"
    if "Value_Bool (Session_Get s ''app.cron.on.service.start'')"
    using that by (simp add: Cron_Start_def run_once_world)
  assume pos: "\<forall>p\<in>set (entries (lib cs)). 0 < fst p"
  then show "Entry 0 (lib cs) = None" by (rule Entry_zero)
  from pos show "\<forall>p\<in>set (entries (lib (fst (Cron_Job parse expr cb cs w)))). 0 < fst p"
    by (auto simp add: Cron_Job_def AddFunc_def Let_def split: option.split)
qed

theorem Cron_Job_appends_id_witness:
  "Cron_Job (\<lambda>x. Some (New ''bad'')) ''x'' boom CS1 W0 =
     (CS1\<lparr>jobIDs := [0, 1, 0]\<rparr>, Log LError ''failed to add job'' W0) \<and>
   Value_Bool (Session_Get S1 ''app.cron.on.service.start'') \<and>
   trace (snd (Cron_Start S1 CS1 W0)) =
     [Logged LSystemDebug ''executing cron first time'',
      Logged LSystemDebug ''executing cron first time'', Spawned 1, CronStarted] \<and>
   Entry 0 (lib CS1) = None"
proof -
  have f: "Value_Bool (Session_Get S1 ''app.cron.on.service.start'')"
    by (simp add: S1_def Value_Bool_def Session_Get_def opts_Get_def)
  have p: "\<forall>p\<in>set (entries (lib CS1)). 0 < fst p" by (simp add: CS1_def)
  from Cron_Job_appends_id [of "\<lambda>x. Some (New ''bad'')" "''x''" boom CS1 W0 S1] f p
  show ?thesis
    by (simp add: CS1_def W0_def Entry_def)
qed

end
